theory Spec2Isabelle
  imports Main "HOL-Library.Word" "HOL-Library.AList"
begin

unbundle bit_operations_syntax

section \<open>Strings and the cache key\<close>

text \<open>
  A Python \<open>str\<close> is modelled by the bytes of its UTF-8 encoding (\<open>string\<close> is a list of
  8-bit characters), so \<open>query.encode("utf-8")\<close> is the string itself. \<open>str.strip()\<close>
  removes, at both ends, every character for which \<open>str.isspace()\<close> holds: the ASCII
  controls U+0009..U+000D and U+001C..U+001F, the blank U+0020, and the code points
  U+0085, U+00A0, U+1680, U+2000..U+200A, U+2028, U+2029, U+202F, U+205F and U+3000,
  here in their UTF-8 encodings of one, two and three bytes.
\<close>

definition space1 :: "char \<Rightarrow> bool" where
  "space1 a = (a \<in> set [CHR 0x09, CHR 0x0A, CHR 0x0B, CHR 0x0C, CHR 0x0D,
                         CHR 0x1C, CHR 0x1D, CHR 0x1E, CHR 0x1F, CHR 0x20])"

definition space2 :: "char \<Rightarrow> char \<Rightarrow> bool" where
  "space2 a b = (a = CHR 0xC2 \<and> (b = CHR 0x85 \<or> b = CHR 0xA0))"

definition space3 :: "char \<Rightarrow> char \<Rightarrow> char \<Rightarrow> bool" where
  "space3 a b c =
     ((a = CHR 0xE1 \<and> b = CHR 0x9A \<and> c = CHR 0x80) \<or>
      (a = CHR 0xE2 \<and> b = CHR 0x80 \<and>
         (c \<in> set [CHR 0x80, CHR 0x81, CHR 0x82, CHR 0x83, CHR 0x84, CHR 0x85, CHR 0x86,
                    CHR 0x87, CHR 0x88, CHR 0x89, CHR 0x8A, CHR 0xA8, CHR 0xA9, CHR 0xAF])) \<or>
      (a = CHR 0xE2 \<and> b = CHR 0x81 \<and> c = CHR 0x9F) \<or>
      (a = CHR 0xE3 \<and> b = CHR 0x80 \<and> c = CHR 0x80))"

text \<open>\<open>lstrip\<close> on the encoded string; \<open>rstrip_rev\<close> is the same on the reversed string,
  where the bytes of one character come last byte first.\<close>

fun lstrip :: "string \<Rightarrow> string" where
  "lstrip (a # b # c # s) =
     (if space1 a then lstrip (b # c # s)
      else if space2 a b then lstrip (c # s)
      else if space3 a b c then lstrip s
      else a # b # c # s)"
| "lstrip [a, b] =
     (if space1 a then lstrip [b] else if space2 a b then [] else [a, b])"
| "lstrip [a] = (if space1 a then [] else [a])"
| "lstrip [] = []"

fun rstrip_rev :: "string \<Rightarrow> string" where
  "rstrip_rev (c # b # a # s) =
     (if space1 c then rstrip_rev (b # a # s)
      else if space2 b c then rstrip_rev (a # s)
      else if space3 a b c then rstrip_rev s
      else c # b # a # s)"
| "rstrip_rev [c, b] =
     (if space1 c then rstrip_rev [b] else if space2 b c then [] else [c, b])"
| "rstrip_rev [c] = (if space1 c then [] else [c])"
| "rstrip_rev [] = []"

definition strip :: "string \<Rightarrow> string" where
  "strip s = rev (rstrip_rev (rev (lstrip s)))"

text \<open>
  \<open>hashlib.md5\<close> is the standard library's: it is a parameter \<open>h\<close> of the model, a
  function from the encoded bytes to the 128-bit digest (the 16 digest bytes read as one
  big-endian number). \<open>hexdigest()\<close> prints the digest as lower-case hexadecimal digits,
  most significant first.
\<close>

definition hex_digits :: string where
  "hex_digits = ''0123456789abcdef''"

definition nibble :: "128 word \<Rightarrow> nat \<Rightarrow> nat" where
  "nibble w i = unat (drop_bit (4 * i) w AND 15)"

definition hexdigest :: "128 word \<Rightarrow> string" where
  "hexdigest w = map (\<lambda>i. hex_digits ! nibble w i) (rev [0..<32])"

text \<open>\<open>get_cache_id\<close> (lines 22-23).\<close>

definition get_cache_id :: "(string \<Rightarrow> 128 word) \<Rightarrow> string \<Rightarrow> string" where
  "get_cache_id h query = hexdigest (h query)"

section \<open>Paths and the file store\<close>

text \<open>
  The operating system resolves a path name component by component: an empty component
  and \<open>.\<close> stay in place, \<open>..\<close> goes to the parent. \<open>Loc a n cs\<close> is the place
  reached: from the root when \<open>a\<close> holds, otherwise from the working directory of the
  server, \<open>n\<close> directories above it and then down along \<open>cs\<close>. Symbolic links are not
  modelled, and the store holds regular files only.

  \<open>resolve\<close> is for the names that \<open>stream_pcm\<close> builds itself (the three artifacts
  directly below the cache root, which line 14 creates, and the two cookie files): they
  have no component \<open>..\<close>, and the place is where the file is or will be. A name that
  comes from a request is looked up by \<open>os_resolve\<close> below, which walks the directories
  that exist.
\<close>

datatype loc = Loc bool nat "string list"

fun split_path :: "string \<Rightarrow> string list" where
  "split_path [] = [[]]"
| "split_path (c # cs) =
     (if c = CHR ''/'' then [] # split_path cs
      else (case split_path cs of [] \<Rightarrow> [[c]] | x # xs \<Rightarrow> (c # x) # xs))"

fun walk :: "bool \<Rightarrow> string list \<Rightarrow> nat \<Rightarrow> string list \<Rightarrow> loc" where
  "walk a [] n st = Loc a n (rev st)"
| "walk a (c # cs) n st =
     (if c = [] \<or> c = ''.'' then walk a cs n st
      else if c = ''..'' then
        (case st of
           [] \<Rightarrow> walk a cs (if a then 0 else Suc n) []
         | _ # st' \<Rightarrow> walk a cs n st')
      else walk a cs n (c # st))"

definition resolve :: "string \<Rightarrow> loc" where
  "resolve p = walk (take 1 p = ''/'') (split_path p) 0 []"

text \<open>\<open>os.path.join\<close> of two names, and \<open>str.endswith\<close>.\<close>

definition os_path_join :: "string \<Rightarrow> string \<Rightarrow> string" where
  "os_path_join a b =
     (if take 1 b = ''/'' then b
      else if a = [] \<or> last a = CHR ''/'' then a @ b
      else a @ ''/'' @ b)"

definition endswith :: "string \<Rightarrow> string \<Rightarrow> bool" where
  "endswith s suf = (length suf \<le> length s \<and> drop (length s - length suf) s = suf)"

text \<open>
  JSON values (numbers are integers here). A file holds either raw bytes, or the text that
  \<open>json.dump\<close> writes for a value: \<open>JsonDoc v\<close> stands for that text, and \<open>json.load\<close>
  reads it back as \<open>v\<close>. On raw bytes \<open>json.load\<close> raises on the empty file, and
  otherwise decodes as the standard library does, a parameter \<open>loads\<close> of the model
  (\<open>None\<close> when it raises).
\<close>

datatype jval =
    JNull
  | JBool bool
  | JInt int
  | JStr string
  | JArr "jval list"
  | JObj "(string \<times> jval) list"

datatype content = Raw string | JsonDoc jval

datatype exn =
    JSONDecodeError
  | TypeError
  | FileNotFoundError
  | IsADirectoryError
  | ClientError string

definition json_load :: "(string \<Rightarrow> jval option) \<Rightarrow> content \<Rightarrow> exn + jval" where
  "json_load loads c =
     (case c of
        JsonDoc v \<Rightarrow> Inr v
      | Raw b \<Rightarrow>
          (if b = [] then Inl JSONDecodeError
           else (case loads b of None \<Rightarrow> Inl JSONDecodeError | Some v \<Rightarrow> Inr v)))"

text \<open>
  The lookup of a path name by the operating system, as \<open>os.path.exists\<close> and \<open>open\<close>
  do it. \<open>D\<close> tells which places are directories, \<open>f\<close> is the store of the regular
  files. Every component but the empty one between two slashes needs a directory to start
  from; \<open>.\<close> stays, \<open>..\<close> goes to the parent, a name goes to the entry of that name,
  which must exist as a directory or a file; a trailing slash needs a directory. \<open>None\<close>
  is the failure of the lookup (\<open>os.path.exists\<close> is then false).
\<close>

definition parent :: "loc \<Rightarrow> loc" where
  "parent l =
     (case l of Loc a n cs \<Rightarrow>
        if cs \<noteq> [] then Loc a n (butlast cs)
        else if a then Loc True 0 []
        else Loc False (Suc n) [])"

definition child :: "loc \<Rightarrow> string \<Rightarrow> loc" where
  "child l c = (case l of Loc a n cs \<Rightarrow> Loc a n (cs @ [c]))"

fun os_walk ::
  "(loc \<Rightarrow> bool) \<Rightarrow> (loc \<Rightarrow> content option) \<Rightarrow> string list \<Rightarrow> loc \<Rightarrow> loc option" where
  "os_walk D f [] cur = Some cur"
| "os_walk D f (c # cs) cur =
     (if c = [] \<and> cs \<noteq> [] then os_walk D f cs cur
      else if \<not> D cur then None
      else if c = [] \<or> c = ''.'' then os_walk D f cs cur
      else if c = ''..'' then
        (if D (parent cur) then os_walk D f cs (parent cur) else None)
      else if D (child cur c) \<or> f (child cur c) \<noteq> None then os_walk D f cs (child cur c)
      else None)"

definition os_resolve ::
  "(loc \<Rightarrow> bool) \<Rightarrow> (loc \<Rightarrow> content option) \<Rightarrow> string \<Rightarrow> loc option" where
  "os_resolve D f p = os_walk D f (split_path p) (Loc (take 1 p = ''/'') 0 [])"

text \<open>
  What a handler does besides answering: it changes the file store and it calls its
  collaborators. The state carries the store \<open>fs\<close>, the list \<open>seen\<close> of every store
  that existed after a change (what a reader, or a restart after an interruption, finds at
  that moment), and the \<open>trace\<close> of the calls and of the files opened.
\<close>

datatype event =
    DeriveKey string
  | FileOpen string string
  | MediaSearch string
  | AudioFetch string
  | LyricSearch string
  | LyricSong string
  | LyricText string
  | TranscriptFetch string "string list"

record state =
  fs :: "loc \<Rightarrow> content option"
  seen :: "(loc \<Rightarrow> content option) list"
  trace :: "event list"

definition emit :: "event \<Rightarrow> state \<Rightarrow> state" where
  "emit e s = s\<lparr>trace := trace s @ [e]\<rparr>"

definition store :: "string \<Rightarrow> content \<Rightarrow> state \<Rightarrow> state" where
  "store p c s = (let f = (fs s)(resolve p \<mapsto> c) in s\<lparr>fs := f, seen := seen s @ [f]\<rparr>)"

definition os_path_exists :: "state \<Rightarrow> string \<Rightarrow> bool" where
  "os_path_exists s p = (fs s (resolve p) \<noteq> None)"

text \<open>
  \<open>with open(p, "w") as f: ...\<close> first creates or truncates the file, which is then
  empty, and the content is in the file when the block is left.
\<close>

definition write_file :: "string \<Rightarrow> content \<Rightarrow> state \<Rightarrow> state" where
  "write_file p c s = store p c (store p (Raw []) (emit (FileOpen p ''w'') s))"

section \<open>Collaborators\<close>

text \<open>
  The external services are parameters of the model; \<open>Inl m\<close> is an exception with
  message \<open>m\<close>.
  \<^item> \<open>youtube_search q\<close>: the items of \<open>youtube.search().list(q=q, maxResults=1, ...)\<close>.
  \<^item> \<open>ydl_extract_info cookiefile cache_id url\<close>: \<open>extract_info(url, download=True)\<close>
    with the options of lines 77-99; on success the value under \<open>"duration"\<close> of the
    result, if the key is there, and the bytes of the mp3 file it leaves at
    \<open>music_cache/<cache_id>.mp3\<close>.
  \<^item> \<open>ytm_search q\<close>: for each hit of \<open>ytm.search(q, filter="songs")\<close> its
    \<open>"videoId"\<close>, if the key is there.
  \<^item> \<open>ytm_get_song v\<close>: the \<open>"browseId"\<close> under \<open>"lyrics"\<close> of \<open>ytm.get_song(v)\<close>, if
    both keys are there.
  \<^item> \<open>ytm_get_lyrics b\<close>: \<open>None\<close> for a falsy result of \<open>ytm.get_lyrics(b)\<close>, else what
    \<open>.get("lyrics")\<close> gives.
  \<^item> \<open>transcript_fetch v langs\<close>: the lines of the transcript.
  \<^item> \<open>cookie_appendable\<close>: whether \<open>open("/etc/secrets/cookiesyt.txt", "a")\<close> succeeds.
\<close>

record video =
  video_id :: string
  title :: string
  channel_title :: string
  thumbnail_high :: string

record env =
  md5 :: "string \<Rightarrow> 128 word"
  json_loads :: "string \<Rightarrow> jval option"
  youtube_search :: "string \<Rightarrow> string + video list"
  cookie_appendable :: bool
  ydl_extract_info :: "string \<Rightarrow> string \<Rightarrow> string \<Rightarrow> string + jval option \<times> string"
  ytm_search :: "string \<Rightarrow> string + string option list"
  ytm_get_song :: "string \<Rightarrow> string + string option"
  ytm_get_lyrics :: "string \<Rightarrow> string + string option option"
  transcript_fetch :: "string \<Rightarrow> string list \<Rightarrow> string + string list"

record request =
  song_param :: "string option"
  artist_param :: "string option"

datatype response =
    Http nat jval
  | Stream string content
  | Unhandled exn

section \<open>The handlers\<close>

definition CACHE_DIR :: string where
  "CACHE_DIR = ''music_cache''"

definition COOKIE_FILE :: string where
  "COOKIE_FILE = ''/etc/secrets/cookiesyt.txt''"

definition WRITABLE_COOKIE_FILE :: string where
  "WRITABLE_COOKIE_FILE = ''cookiesyt_writable.txt''"

definition cache_file :: "string \<Rightarrow> string \<Rightarrow> string" where
  "cache_file cache_id ext = CACHE_DIR @ ''/'' @ cache_id @ ext"

text \<open>\<open>make_meta_json\<close> (lines 25-35); a \<open>dict\<close> is the list of its items in insertion
  order.\<close>

definition make_meta_json ::
  "string \<Rightarrow> string \<Rightarrow> string \<Rightarrow> jval \<Rightarrow> string \<Rightarrow> (string \<times> jval) list" where
  "make_meta_json cache_id artist title' duration thumbnail =
     [(''artist'', JStr artist),
      (''audio_url'', JStr (''/'' @ CACHE_DIR @ ''/'' @ cache_id @ ''.mp3'')),
      (''cover_url'', JStr thumbnail),
      (''duration'', duration),
      (''from_cache'', JBool True),
      (''lyric_url'', JStr (''/'' @ CACHE_DIR @ ''/'' @ cache_id @ ''.lrc'')),
      (''title'', JStr title')]"

text \<open>Lines 52-57: the cached answer. \<open>data["from_cache"] = True\<close> needs a \<open>dict\<close>.\<close>

definition lookup_cached :: "env \<Rightarrow> string \<Rightarrow> state \<Rightarrow> response \<times> state" where
  "lookup_cached E meta_path s =
     (let s1 = emit (FileOpen meta_path ''r'') s in
      case fs s (resolve meta_path) of
        None \<Rightarrow> (Unhandled FileNotFoundError, s)
      | Some c \<Rightarrow>
          (case json_load (json_loads E) c of
             Inl ex \<Rightarrow> (Unhandled ex, s1)
           | Inr (JObj d) \<Rightarrow> (Http 200 (JObj (AList.update ''from_cache'' (JBool True) d)), s1)
           | Inr _ \<Rightarrow> (Unhandled TypeError, s1)))"

text \<open>
  Lines 89-99: the cookie file is opened for appending, which creates it when it is
  missing; when that fails it is copied to a file of the working directory
  (\<open>shutil.copy\<close> raises when there is nothing to copy).
\<close>

definition prepare_cookie :: "env \<Rightarrow> state \<Rightarrow> exn + string \<times> state" where
  "prepare_cookie E s =
     (if cookie_appendable E then
        (let s1 = emit (FileOpen COOKIE_FILE ''a'') s in
         Inr (COOKIE_FILE,
              (case fs s (resolve COOKIE_FILE) of
                 None \<Rightarrow> store COOKIE_FILE (Raw []) s1
               | Some _ \<Rightarrow> s1)))
      else
        (case fs s (resolve COOKIE_FILE) of
           None \<Rightarrow> Inl FileNotFoundError
         | Some c \<Rightarrow>
             Inr (WRITABLE_COOKIE_FILE,
                  write_file WRITABLE_COOKIE_FILE c (emit (FileOpen COOKIE_FILE ''rb'') s))))"

text \<open>Lines 108-119: lyrics from YouTube Music; every exception leaves the empty text.\<close>

definition primary_lyrics :: "env \<Rightarrow> string \<Rightarrow> state \<Rightarrow> string \<times> state" where
  "primary_lyrics E query s =
     (let s1 = emit (LyricSearch query) s in
      case ytm_search E query of
        Inl _ \<Rightarrow> ([], s1)
      | Inr [] \<Rightarrow> ([], s1)
      | Inr (None # _) \<Rightarrow> ([], s1)
      | Inr (Some v # _) \<Rightarrow>
          (let s2 = emit (LyricSong v) s1 in
           case ytm_get_song E v of
             Inl _ \<Rightarrow> ([], s2)
           | Inr None \<Rightarrow> ([], s2)
           | Inr (Some b) \<Rightarrow>
               (let s3 = emit (LyricText b) s2 in
                case ytm_get_lyrics E b of
                  Inl _ \<Rightarrow> ([], s3)
                | Inr None \<Rightarrow> ([], s3)
                | Inr (Some None) \<Rightarrow> ([], s3)
                | Inr (Some (Some t)) \<Rightarrow> (if t \<noteq> [] then (t, s3) else ([], s3)))))"

text \<open>Lines 121-127: the transcript, formatted by \<open>TextFormatter\<close> as its lines joined
  with newlines.\<close>

fun format_transcript :: "string list \<Rightarrow> string" where
  "format_transcript [] = []"
| "format_transcript [l] = l"
| "format_transcript (l # ls) = l @ [CHR 0x0A] @ format_transcript ls"

definition transcript_lyrics :: "env \<Rightarrow> string \<Rightarrow> state \<Rightarrow> string \<times> state" where
  "transcript_lyrics E v s =
     (let s1 = emit (TranscriptFetch v [''vi'', ''en'']) s in
      case transcript_fetch E v [''vi'', ''en''] of
        Inl _ \<Rightarrow> ([], s1)
      | Inr tr \<Rightarrow> (format_transcript tr, s1))"

definition get_lyrics :: "env \<Rightarrow> string \<Rightarrow> string \<Rightarrow> state \<Rightarrow> string \<times> state" where
  "get_lyrics E query v s =
     (case primary_lyrics E query s of
        (lyrics_text, s1) \<Rightarrow>
          if lyrics_text = [] then transcript_lyrics E v s1 else (lyrics_text, s1))"

text \<open>Lines 59-138: search, download, lyrics, and the two files written last.\<close>

definition watch_url :: "string \<Rightarrow> string" where
  "watch_url v = ''https://www.youtube.com/watch?v='' @ v"

definition fetch_and_cache :: "env \<Rightarrow> string \<Rightarrow> string \<Rightarrow> state \<Rightarrow> response \<times> state" where
  "fetch_and_cache E query cache_id s =
     (let s1 = emit (MediaSearch query) s in
      case youtube_search E query of
        Inl m \<Rightarrow> (Unhandled (ClientError m), s1)
      | Inr [] \<Rightarrow> (Http 404 (JObj [(''error'', JStr ''No video found'')]), s1)
      | Inr (vd # _) \<Rightarrow>
          (case prepare_cookie E s1 of
             Inl ex \<Rightarrow> (Unhandled ex, s1)
           | Inr (cookie_file, s2) \<Rightarrow>
               (let url = watch_url (video_id vd);
                    s3 = emit (AudioFetch url) s2
                in case ydl_extract_info E cookie_file cache_id url of
                     Inl m \<Rightarrow>
                       (Http 500 (JObj [(''error'', JStr (''Download failed: '' @ m))]), s3)
                   | Inr (dur, audio) \<Rightarrow>
                       (let s4 = store (cache_file cache_id ''.mp3'') (Raw audio) s3;
                            duration = (case dur of None \<Rightarrow> JInt 0 | Some d \<Rightarrow> d)
                        in case get_lyrics E query (video_id vd) s4 of
                             (lyrics_text, s5) \<Rightarrow>
                               (let s6 = write_file (cache_file cache_id ''.lrc'')
                                           (Raw lyrics_text) s5;
                                    data = make_meta_json cache_id (channel_title vd)
                                             (title vd) duration (thumbnail_high vd);
                                    s7 = write_file (cache_file cache_id ''.json'')
                                           (JsonDoc (JObj data)) s6
                                in (Http 200 (JObj data), s7))))))"

text \<open>\<open>stream_pcm\<close> (lines 39-138).\<close>

definition stream_pcm :: "env \<Rightarrow> request \<Rightarrow> state \<Rightarrow> response \<times> state" where
  "stream_pcm E req s =
     (let artist = (case artist_param req of None \<Rightarrow> [] | Some a \<Rightarrow> a) in
      case song_param req of
        None \<Rightarrow> (Http 400 (JObj [(''error'', JStr ''Missing song'')]), s)
      | Some song \<Rightarrow>
          if song = [] then (Http 400 (JObj [(''error'', JStr ''Missing song'')]), s)
          else
            (let query = strip (song @ '' '' @ artist);
                 cache_id = get_cache_id (md5 E) query;
                 s1 = emit (DeriveKey query) s;
                 meta_path = cache_file cache_id ''.json''
             in if os_path_exists s1 meta_path then lookup_cached E meta_path s1
                else fetch_and_cache E query cache_id s1))"

text \<open>
  \<open>serve_cache\<close> (lines 142-162). \<open>D\<close> tells which places are directories.
  \<open>os.path.exists\<close> holds for a file and for a directory; the answer streams the bytes
  of the file, and on a directory \<open>open\<close> raises when the stream starts.
\<close>

definition serve_cache :: "(loc \<Rightarrow> bool) \<Rightarrow> string \<Rightarrow> state \<Rightarrow> response \<times> state" where
  "serve_cache D filename s =
     (let full_path = os_path_join CACHE_DIR filename in
      case os_resolve D (fs s) full_path of
        None \<Rightarrow> (Http 404 (JObj [(''error'', JStr ''file not found'')]), s)
      | Some l \<Rightarrow>
          (let mimetype =
                 (if endswith filename ''.mp3'' then ''audio/mpeg''
                  else if endswith filename ''.lrc'' \<or> endswith filename ''.txt''
                    then ''text/plain; charset=utf-8''
                  else if endswith filename ''.json'' then ''application/json''
                  else ''application/octet-stream'');
               s1 = emit (FileOpen full_path ''rb'') s
           in if D l then (Unhandled IsADirectoryError, s1)
              else (case fs s l of
                      None \<Rightarrow> (Unhandled FileNotFoundError, s1)
                    | Some c \<Rightarrow> (Stream mimetype c, s1))))"

section \<open>Notions used by the properties\<close>

text \<open>The query of line 46 and the three artifact names of lines 48-50 for a request.\<close>

definition query_of :: "request \<Rightarrow> string" where
  "query_of req =
     strip ((case song_param req of None \<Rightarrow> [] | Some sg \<Rightarrow> sg) @ '' '' @
            (case artist_param req of None \<Rightarrow> [] | Some a \<Rightarrow> a))"

definition artifact :: "env \<Rightarrow> request \<Rightarrow> string \<Rightarrow> string" where
  "artifact E req ext = cache_file (get_cache_id (md5 E) (query_of req)) ext"

definition status :: "response \<Rightarrow> nat option" where
  "status r = (case r of Http n _ \<Rightarrow> Some n | _ \<Rightarrow> None)"

text \<open>The stores that came to exist, and the events that happened, between two states.\<close>

definition new_seen :: "state \<Rightarrow> state \<Rightarrow> (loc \<Rightarrow> content option) list" where
  "new_seen s s' = drop (length (seen s)) (seen s')"

definition new_trace :: "state \<Rightarrow> state \<Rightarrow> event list" where
  "new_trace s s' = drop (length (trace s)) (trace s')"

definition is_transcript_call :: "event \<Rightarrow> bool" where
  "is_transcript_call e = (case e of TranscriptFetch _ _ \<Rightarrow> True | _ \<Rightarrow> False)"

text \<open>A place is inside the cache root when it is reached from the working directory
  through the directory \<open>music_cache\<close>.\<close>

definition inside_cache_root :: "loc \<Rightarrow> bool" where
  "inside_cache_root l = (case l of Loc a n cs \<Rightarrow> \<not> a \<and> n = 0 \<and> take 1 cs = [CACHE_DIR])"

text \<open>Every key with a metadata file has a lyrics file.\<close>

definition complete_entries :: "(loc \<Rightarrow> content option) \<Rightarrow> bool" where
  "complete_entries f =
     (\<forall>w :: 128 word.
        f (resolve (cache_file (hexdigest w) ''.json'')) \<noteq> None \<longrightarrow>
        f (resolve (cache_file (hexdigest w) ''.lrc'')) \<noteq> None)"

text \<open>A concrete request, an empty store, and collaborators that answer it: one video,
  a download that succeeds, no lyrics on YouTube Music (the search raises), a transcript
  of two lines.\<close>

definition req0 :: request where
  "req0 = \<lparr>song_param = Some ''Shape of You'', artist_param = Some ''Ed Sheeran''\<rparr>"

definition state0 :: state where
  "state0 = \<lparr>fs = Map.empty, seen = [], trace = []\<rparr>"

definition env0 :: env where
  "env0 =
     \<lparr>md5 = (\<lambda>q. word_of_nat (length q)),
      json_loads = (\<lambda>b. None),
      youtube_search = (\<lambda>q. Inr [\<lparr>video_id = ''v1'', title = ''Shape'',
                                      channel_title = ''Ed'', thumbnail_high = ''img''\<rparr>]),
      cookie_appendable = True,
      ydl_extract_info = (\<lambda>cookie cache_id url. Inr (Some (JInt 233), ''ID3'')),
      ytm_search = (\<lambda>q. Inl ''timeout''),
      ytm_get_song = (\<lambda>v. Inr (Some ''b1'')),
      ytm_get_lyrics = (\<lambda>b. Inr (Some (Some ''words''))),
      transcript_fetch = (\<lambda>v langs. Inr [''la'', ''la''])\<rparr>"

text \<open>The same collaborators, with a download that fails, with a search that finds
  nothing, and with lyrics on YouTube Music.\<close>

definition env_download_fails :: env where
  "env_download_fails =
     env0\<lparr>ydl_extract_info := (\<lambda>cookie cache_id url. Inl ''HTTP Error 403'')\<rparr>"

definition env_no_video :: env where
  "env_no_video = env0\<lparr>youtube_search := (\<lambda>q. Inr [])\<rparr>"

definition env_lyrics :: env where
  "env_lyrics = env0\<lparr>ytm_search := (\<lambda>q. Inr [Some ''v9''])\<rparr>"

definition env_no_lyrics :: env where
  "env_no_lyrics = env0\<lparr>transcript_fetch := (\<lambda>v langs. Inl ''TranscriptsDisabled'')\<rparr>"

text \<open>The answer to \<open>req0\<close> from \<open>env0\<close>, and the store after that run.\<close>

definition data0 :: "(string \<times> jval) list" where
  "data0 =
     [(''artist'', JStr ''Ed''),
      (''audio_url'', JStr ''/music_cache/00000000000000000000000000000017.mp3''),
      (''cover_url'', JStr ''img''),
      (''duration'', JInt 233),
      (''from_cache'', JBool True),
      (''lyric_url'', JStr ''/music_cache/00000000000000000000000000000017.lrc''),
      (''title'', JStr ''Shape'')]"

definition state1 :: state where
  "state1 = snd (stream_pcm env0 req0 state0)"

text \<open>The directories of a fresh server: its working directory and the cache root
  that line 14 creates.\<close>

definition dirs0 :: "loc \<Rightarrow> bool" where
  "dirs0 l = (l = Loc False 0 [] \<or> l = Loc False 0 [CACHE_DIR])"

text \<open>A store whose only file is the copy of the cookie file in the working directory,
  as lines 94-95 leave it.\<close>

definition state_cookie_copy :: state where
  "state_cookie_copy =
     \<lparr>fs = [resolve WRITABLE_COOKIE_FILE \<mapsto> Raw ''SID=1''], seen = [], trace = []\<rparr>"

text \<open>A store whose only file is the metadata file of \<open>req0\<close>, empty.\<close>

definition state_empty_metadata :: state where
  "state_empty_metadata =
     \<lparr>fs = [resolve (artifact env0 req0 ''.json'') \<mapsto> Raw []], seen = [], trace = []\<rparr>"

section \<open>Properties of the cache key\<close>

lemma nibble_less: "nibble w i < 16"
proof -
  have "unat (drop_bit (4 * i) w AND 15) \<le> unat (15 :: 128 word)"
    by (rule word_and_le1 [THEN word_le_nat_alt [THEN iffD1]])
  then show ?thesis by (simp add: nibble_def)
qed

lemma hex_digit_in: "n < 16 \<Longrightarrow> hex_digits ! n \<in> set hex_digits"
  by (rule nth_mem) (simp add: hex_digits_def)

lemma length_hexdigest: "length (hexdigest w) = 32"
  by (simp add: hexdigest_def)

lemma set_hexdigest: "set (hexdigest w) \<subseteq> set hex_digits"
  using nibble_less hex_digit_in by (auto simp: hexdigest_def)

lemma distinct_hex_digits: "distinct hex_digits"
  by (simp add: hex_digits_def)

lemma nibble_bit:
  assumes "j < 4"
  shows "bit (drop_bit (4 * i) w AND (15 :: 128 word)) j = bit w (4 * i + j)"
proof -
  have e: "(15 :: 128 word) = mask 4" by (simp add: mask_eq_exp_minus_1)
  have "bit (mask 4 :: 128 word) j" using assms by (simp only: bit_mask_iff) simp
  then have "bit (15 :: 128 word) j" by (simp only: e)
  then show ?thesis by (simp add: bit_and_iff bit_drop_bit_eq)
qed

lemma hexdigest_inj:
  assumes "hexdigest w = hexdigest w'"
  shows "w = w'"
proof (rule bit_word_eqI)
  fix n assume n: "n < LENGTH(128)"
  let ?i = "n div 4" and ?j = "n mod 4"
  have i: "?i < 32" using n by simp
  have "map (\<lambda>i. hex_digits ! nibble w i) [0..<32] = map (\<lambda>i. hex_digits ! nibble w' i) [0..<32]"
    using assms by (simp add: hexdigest_def rev_map [symmetric])
  then have "hex_digits ! nibble w ?i = hex_digits ! nibble w' ?i"
    using i by (auto simp: map_eq_conv simp del: upt_rec_numeral)
  then have "nibble w ?i = nibble w' ?i"
    using nibble_less [of w ?i] nibble_less [of w' ?i] distinct_hex_digits
    by (simp add: nth_eq_iff_index_eq hex_digits_def)
  then have "drop_bit (4 * ?i) w AND 15 = drop_bit (4 * ?i) w' AND 15"
    by (simp add: nibble_def word_unat_eq_iff)
  then have "bit (drop_bit (4 * ?i) w AND 15) ?j = bit (drop_bit (4 * ?i) w' AND 15) ?j"
    by simp
  then show "bit w n = bit w' n"
    by (simp add: nibble_bit)
qed

section \<open>Paths of the artifacts, and what the state operations do\<close>

lemma split_path_noslash: "CHR ''/'' \<notin> set a \<Longrightarrow> split_path a = [a]"
  by (induction a) (auto split: list.splits)

lemma split_path_append:
  "CHR ''/'' \<notin> set a \<Longrightarrow> split_path (a @ CHR ''/'' # b) = a # split_path b"
  by (induction a) (auto split: list.splits)

lemma hexdigest_noslash: "CHR ''/'' \<notin> set (hexdigest w)"
  using set_hexdigest [of w] by (auto simp: hex_digits_def)

lemma resolve_cache_file:
  assumes "CHR ''/'' \<notin> set k" and "ext \<in> {''.mp3'', ''.lrc'', ''.json''}"
  shows "resolve (cache_file k ext) = Loc False 0 [CACHE_DIR, k @ ext]"
proof -
  have e: "CHR ''/'' \<notin> set (k @ ext)" using assms by auto
  have l: "length (k @ ext) \<ge> 4" using assms(2) by auto
  have n: "k @ ext \<noteq> [] \<and> k @ ext \<noteq> ''.'' \<and> k @ ext \<noteq> ''..''"
  proof (intro conjI notI)
    assume "k @ ext = []" with l show False by simp
  next
    assume "k @ ext = ''.''" then have "length (k @ ext) = 1" by simp
    with l show False by simp
  next
    assume "k @ ext = ''..''" then have "length (k @ ext) = 2" by simp
    with l show False by simp
  qed
  have "split_path (cache_file k ext) = [CACHE_DIR, k @ ext]"
    using split_path_append [of CACHE_DIR "k @ ext"] split_path_noslash [OF e]
    by (simp add: cache_file_def CACHE_DIR_def)
  then show ?thesis using n by (simp add: resolve_def cache_file_def CACHE_DIR_def)
qed

lemma resolve_key_file:
  "ext \<in> {''.mp3'', ''.lrc'', ''.json''} \<Longrightarrow>
   resolve (cache_file (hexdigest w) ext) = Loc False 0 [CACHE_DIR, hexdigest w @ ext]"
  by (rule resolve_cache_file [OF hexdigest_noslash])

lemma resolve_artifact:
  "ext \<in> {''.mp3'', ''.lrc'', ''.json''} \<Longrightarrow>
   resolve (artifact E req ext) =
   Loc False 0 [CACHE_DIR, get_cache_id (md5 E) (query_of req) @ ext]"
  by (simp add: artifact_def get_cache_id_def resolve_key_file)

lemma resolve_COOKIE_FILE:
  "resolve COOKIE_FILE = Loc True 0 [''etc'', ''secrets'', ''cookiesyt.txt'']"
  by (simp add: resolve_def COOKIE_FILE_def)

lemma resolve_WRITABLE_COOKIE_FILE:
  "resolve WRITABLE_COOKIE_FILE = Loc False 0 [''cookiesyt_writable.txt'']"
  by (simp add: resolve_def WRITABLE_COOKIE_FILE_def)

lemma emit_simps [simp]:
  "fs (emit e s) = fs s" "seen (emit e s) = seen s" "trace (emit e s) = trace s @ [e]"
  by (simp_all add: emit_def)

lemma store_simps [simp]:
  "fs (store p c s) = (fs s)(resolve p \<mapsto> c)"
  "seen (store p c s) = seen s @ [(fs s)(resolve p \<mapsto> c)]"
  "trace (store p c s) = trace s"
  by (simp_all add: store_def Let_def)

lemma write_file_simps [simp]:
  "fs (write_file p c s) = (fs s)(resolve p \<mapsto> c)"
  "seen (write_file p c s) = seen s @ [(fs s)(resolve p \<mapsto> Raw []), (fs s)(resolve p \<mapsto> c)]"
  "trace (write_file p c s) = trace s @ [FileOpen p ''w'']"
  by (simp_all add: write_file_def)

lemma primary_lyrics_store [simp]:
  "fs (snd (primary_lyrics E q s)) = fs s" "seen (snd (primary_lyrics E q s)) = seen s"
  by (simp_all add: primary_lyrics_def Let_def split: sum.splits list.splits option.splits)

lemma primary_lyrics_text: "fst (primary_lyrics E q s) = fst (primary_lyrics E q s')"
  by (simp add: primary_lyrics_def Let_def split: sum.splits list.splits option.splits)

lemma primary_lyrics_trace:
  "\<exists>es. trace (snd (primary_lyrics E q s)) = trace s @ es \<and>
        (\<forall>e\<in>set es. \<not> is_transcript_call e)"
  by (simp add: primary_lyrics_def Let_def is_transcript_call_def
           split: sum.splits list.splits option.splits)

lemma transcript_lyrics_simps [simp]:
  "fs (snd (transcript_lyrics E v s)) = fs s" "seen (snd (transcript_lyrics E v s)) = seen s"
  "trace (snd (transcript_lyrics E v s)) = trace s @ [TranscriptFetch v [''vi'', ''en'']]"
  by (simp_all add: transcript_lyrics_def Let_def split: sum.splits)

lemma get_lyrics_store [simp]:
  "fs (snd (get_lyrics E q v s)) = fs s" "seen (snd (get_lyrics E q v s)) = seen s"
  by (simp_all add: get_lyrics_def split: prod.splits)
     (metis primary_lyrics_store snd_conv)+

lemma stream_pcm_song:
  assumes "song_param req = Some sg" and "sg \<noteq> []"
  shows "stream_pcm E req s =
     (if fs s (resolve (artifact E req ''.json'')) \<noteq> None
      then lookup_cached E (artifact E req ''.json'') (emit (DeriveKey (query_of req)) s)
      else fetch_and_cache E (query_of req) (get_cache_id (md5 E) (query_of req))
             (emit (DeriveKey (query_of req)) s))"
  using assms
  by (simp add: stream_pcm_def Let_def query_of_def artifact_def os_path_exists_def)

lemma artifact_not_cookie:
  "ext \<in> {''.mp3'', ''.lrc'', ''.json''} \<Longrightarrow> resolve (artifact E req ext) \<noteq> resolve COOKIE_FILE"
  "ext \<in> {''.mp3'', ''.lrc'', ''.json''} \<Longrightarrow>
     resolve (artifact E req ext) \<noteq> resolve WRITABLE_COOKIE_FILE"
  by (simp_all only: resolve_artifact resolve_COOKIE_FILE resolve_WRITABLE_COOKIE_FILE) simp_all

lemma artifact_distinct:
  "resolve (artifact E req ''.json'') \<noteq> resolve (artifact E req ''.lrc'')"
  "resolve (artifact E req ''.json'') \<noteq> resolve (artifact E req ''.mp3'')"
  "resolve (artifact E req ''.lrc'') \<noteq> resolve (artifact E req ''.mp3'')"
  by (simp_all add: resolve_artifact)

lemma prepare_cookie_cases:
  assumes "prepare_cookie E s = Inr (cf, s')"
  shows "s' = emit (FileOpen COOKIE_FILE ''a'') s \<or>
         s' = store COOKIE_FILE (Raw []) (emit (FileOpen COOKIE_FILE ''a'') s) \<or>
         (\<exists>c. s' = write_file WRITABLE_COOKIE_FILE c (emit (FileOpen COOKIE_FILE ''rb'') s))"
  using assms by (auto simp: prepare_cookie_def Let_def split: if_splits option.splits)

lemma prepare_cookie_name:
  "prepare_cookie E s = Inr (cf, s') \<Longrightarrow>
   cf = (if cookie_appendable E then COOKIE_FILE else WRITABLE_COOKIE_FILE)"
  by (auto simp: prepare_cookie_def Let_def split: if_splits option.splits)

lemma prepare_cookie_ok:
  "cookie_appendable E \<or> fs s (resolve COOKIE_FILE) \<noteq> None \<Longrightarrow>
   \<exists>s'. prepare_cookie E s =
          Inr (if cookie_appendable E then COOKIE_FILE else WRITABLE_COOKIE_FILE, s')"
  by (auto simp: prepare_cookie_def Let_def split: if_splits option.splits)

lemma prepare_cookie_frame:
  assumes "prepare_cookie E s = Inr (cf, s')"
    and "l \<noteq> resolve COOKIE_FILE" and "l \<noteq> resolve WRITABLE_COOKIE_FILE"
  shows "fs s' l = fs s l" and "\<forall>f\<in>set (new_seen s s'). f l = fs s l"
    and "FileOpen p ''w'' \<in> set (new_trace s s') \<Longrightarrow> p = WRITABLE_COOKIE_FILE"
  using prepare_cookie_cases [OF assms(1)] assms(2,3)
  by (auto simp: new_seen_def new_trace_def)

lemma failing_answer_has_song:
  assumes "fst (stream_pcm E req s) = Http 404 b \<or> fst (stream_pcm E req s) = Http 500 b"
  shows "\<exists>sg. song_param req = Some sg \<and> sg \<noteq> []"
  using assms by (cases "song_param req") (auto simp: stream_pcm_def split: if_splits)

lemma fetch_and_cache_failed:
  assumes "fst (fetch_and_cache E q k s) = Http 404 b \<or> fst (fetch_and_cache E q k s) = Http 500 b"
  shows "snd (fetch_and_cache E q k s) = emit (MediaSearch q) s \<or>
         (\<exists>cf s2 u. prepare_cookie E (emit (MediaSearch q) s) = Inr (cf, s2) \<and>
                    snd (fetch_and_cache E q k s) = emit (AudioFetch u) s2)"
  using assms
  by (auto simp: fetch_and_cache_def Let_def split: sum.splits list.splits prod.splits)

lemma status_lookup_cached: "status (fst (lookup_cached E p s)) \<noteq> Some 400"
  by (auto simp: lookup_cached_def status_def Let_def
           split: option.splits sum.splits jval.splits)

lemma status_fetch_and_cache: "status (fst (fetch_and_cache E q k s)) \<noteq> Some 400"
  by (auto simp: fetch_and_cache_def status_def Let_def
           split: option.splits sum.splits list.splits prod.splits)

section \<open>The outcomes of a run that misses the cache\<close>

lemma key_locs_distinct:
  "resolve (cache_file (hexdigest w) ''.json'') \<noteq> resolve (cache_file (hexdigest w') ''.lrc'')"
  "resolve (cache_file (hexdigest w) ''.json'') \<noteq> resolve (cache_file (hexdigest w') ''.mp3'')"
  "resolve (cache_file (hexdigest w) ''.json'') \<noteq> resolve COOKIE_FILE"
  "resolve (cache_file (hexdigest w) ''.json'') \<noteq> resolve WRITABLE_COOKIE_FILE"
  by (simp_all add: resolve_key_file resolve_COOKIE_FILE resolve_WRITABLE_COOKIE_FILE
                    length_hexdigest append_eq_append_conv)

lemma key_loc_inj:
  "resolve (cache_file (hexdigest w) ''.json'') = resolve (cache_file (hexdigest w') ''.json'')
   \<Longrightarrow> hexdigest w = hexdigest w'"
  by (simp add: resolve_key_file)

lemma complete_entries_upd_other:
  assumes "complete_entries f"
    and "\<And>w. l \<noteq> resolve (cache_file (hexdigest w) ''.json'')"
  shows "complete_entries (f(l \<mapsto> c))"
  using assms by (auto simp: complete_entries_def)

lemma complete_entries_upd_meta:
  assumes "complete_entries f"
    and "f (resolve (cache_file (hexdigest w) ''.lrc'')) \<noteq> None"
  shows "complete_entries (f(resolve (cache_file (hexdigest w) ''.json'') \<mapsto> c))"
  unfolding complete_entries_def
proof (intro allI impI)
  fix w'
  assume a: "(f(resolve (cache_file (hexdigest w) ''.json'') \<mapsto> c))
               (resolve (cache_file (hexdigest w') ''.json'')) \<noteq> None"
  show "(f(resolve (cache_file (hexdigest w) ''.json'') \<mapsto> c))
          (resolve (cache_file (hexdigest w') ''.lrc'')) \<noteq> None"
  proof (cases "resolve (cache_file (hexdigest w') ''.json'') =
                resolve (cache_file (hexdigest w) ''.json'')")
    case True
    then have "hexdigest w' = hexdigest w" by (rule key_loc_inj)
    then show ?thesis using assms(2) key_locs_distinct(1) [of w w] by simp
  next
    case False
    then have "f (resolve (cache_file (hexdigest w') ''.json'')) \<noteq> None" using a by simp
    then have "f (resolve (cache_file (hexdigest w') ''.lrc'')) \<noteq> None"
      using assms(1) by (simp add: complete_entries_def)
    then show ?thesis using key_locs_distinct(1) [of w w'] by simp
  qed
qed

lemma fetch_and_cache_success:
  assumes "youtube_search E q = Inr (vd # vs)"
    and "prepare_cookie E (emit (MediaSearch q) s) = Inr (cf, s2)"
    and "ydl_extract_info E cf k (watch_url (video_id vd)) = Inr (dur, audio)"
  shows "fetch_and_cache E q k s =
     (Http 200 (JObj (make_meta_json k (channel_title vd) (title vd)
                        (case dur of None \<Rightarrow> JInt 0 | Some d \<Rightarrow> d) (thumbnail_high vd))),
      write_file (cache_file k ''.json'')
        (JsonDoc (JObj (make_meta_json k (channel_title vd) (title vd)
                          (case dur of None \<Rightarrow> JInt 0 | Some d \<Rightarrow> d) (thumbnail_high vd))))
        (write_file (cache_file k ''.lrc'')
           (Raw (fst (get_lyrics E q (video_id vd)
                        (store (cache_file k ''.mp3'') (Raw audio)
                           (emit (AudioFetch (watch_url (video_id vd))) s2)))))
           (snd (get_lyrics E q (video_id vd)
                   (store (cache_file k ''.mp3'') (Raw audio)
                      (emit (AudioFetch (watch_url (video_id vd))) s2))))))"
  using assms by (simp add: fetch_and_cache_def Let_def split: prod.splits)

lemma fetch_and_cache_outcomes:
  obtains
    (stopped) "snd (fetch_and_cache E q k s) = emit (MediaSearch q) s"
      "\<forall>b. fst (fetch_and_cache E q k s) \<noteq> Http 200 b"
  | (download_failed) cf s2 where "prepare_cookie E (emit (MediaSearch q) s) = Inr (cf, s2)"
      "snd (fetch_and_cache E q k s) = emit (AudioFetch (watch_url (video_id (hd (projr (youtube_search E q)))))) s2"
      "\<forall>b. fst (fetch_and_cache E q k s) \<noteq> Http 200 b"
  | (cached) vd vs cf s2 dur audio where "youtube_search E q = Inr (vd # vs)"
      "prepare_cookie E (emit (MediaSearch q) s) = Inr (cf, s2)"
      "ydl_extract_info E cf k (watch_url (video_id vd)) = Inr (dur, audio)"
proof (cases "youtube_search E q")
  case (Inl m)
  then show ?thesis by (intro stopped) (simp_all add: fetch_and_cache_def)
next
  case (Inr items)
  show ?thesis
  proof (cases items)
    case Nil
    with Inr show ?thesis by (intro stopped) (simp_all add: fetch_and_cache_def)
  next
    case (Cons vd vs)
    show ?thesis
    proof (cases "prepare_cookie E (emit (MediaSearch q) s)")
      case (Inl ex)
      with Inr Cons show ?thesis by (intro stopped) (simp_all add: fetch_and_cache_def)
    next
      case pc: (Inr r)
      obtain cf s2 where r: "r = (cf, s2)" by (cases r)
      show ?thesis
      proof (cases "ydl_extract_info E cf k (watch_url (video_id vd))")
        case (Inl m)
        with Inr Cons pc r show ?thesis
          by (intro download_failed [of cf s2]) (simp_all add: fetch_and_cache_def Let_def)
      next
        case dl: (Inr res)
        obtain dur audio where "res = (dur, audio)" by (cases res)
        with Inr Cons pc r dl show ?thesis by (intro cached [of vd vs cf s2 dur audio]) simp_all
      qed
    qed
  qed
qed

lemma stream_pcm_state:
  "snd (stream_pcm E req s) = s \<or>
   snd (stream_pcm E req s) =
     emit (FileOpen (artifact E req ''.json'') ''r'') (emit (DeriveKey (query_of req)) s) \<or>
   snd (stream_pcm E req s) =
     snd (fetch_and_cache E (query_of req) (get_cache_id (md5 E) (query_of req))
            (emit (DeriveKey (query_of req)) s))"
proof (cases "\<exists>sg. song_param req = Some sg \<and> sg \<noteq> []")
  case True
  then obtain sg where sg: "song_param req = Some sg" "sg \<noteq> []" by blast
  show ?thesis
    by (auto simp: stream_pcm_song [OF sg] lookup_cached_def Let_def
             split: option.splits sum.splits jval.splits)
next
  case False
  then show ?thesis
    by (cases "song_param req") (auto simp: stream_pcm_def)
qed

lemma prepare_cookie_complete:
  assumes "prepare_cookie E s = Inr (cf, s')" and "complete_entries (fs s)"
  shows "complete_entries (fs s')"
    and "\<forall>f\<in>set (new_seen s s'). complete_entries f \<and> dom (fs s) \<subseteq> dom f"
    and "dom (fs s) \<subseteq> dom (fs s')"
    and "\<exists>xs. seen s' = seen s @ xs"
  using prepare_cookie_cases [OF assms(1)] assms(2)
  by (auto simp: new_seen_def intro!: complete_entries_upd_other
           simp: key_locs_distinct(3,4) [symmetric])

lemma cached_stores_complete:
  assumes "complete_entries g"
  shows "complete_entries (g(resolve (cache_file (hexdigest w) ''.mp3'') \<mapsto> a))"
    and "complete_entries (g(resolve (cache_file (hexdigest w) ''.mp3'') \<mapsto> a,
                            resolve (cache_file (hexdigest w) ''.lrc'') \<mapsto> l))"
    and "complete_entries (g(resolve (cache_file (hexdigest w) ''.mp3'') \<mapsto> a,
                            resolve (cache_file (hexdigest w) ''.lrc'') \<mapsto> l,
                            resolve (cache_file (hexdigest w) ''.json'') \<mapsto> d))"
proof -
  let ?F1 = "g(resolve (cache_file (hexdigest w) ''.mp3'') \<mapsto> a)"
  let ?F2 = "?F1(resolve (cache_file (hexdigest w) ''.lrc'') \<mapsto> l)"
  show 1: "complete_entries ?F1"
    using assms key_locs_distinct(2) [symmetric] by (rule complete_entries_upd_other)
  show 2: "complete_entries ?F2"
    using 1 key_locs_distinct(1) [symmetric] by (rule complete_entries_upd_other)
  show "complete_entries (?F2(resolve (cache_file (hexdigest w) ''.json'') \<mapsto> d))"
    using 2 by (rule complete_entries_upd_meta) simp
qed

lemma prepare_cookie_extends:
  "prepare_cookie E s = Inr (cf, s') \<Longrightarrow> \<exists>xs. seen s' = seen s @ xs"
  by (drule prepare_cookie_cases) auto

lemma answer_200_has_song:
  assumes "fst (stream_pcm E req s) = Http 200 b"
  shows "\<exists>sg. song_param req = Some sg \<and> sg \<noteq> []"
  using assms by (cases "song_param req") (auto simp: stream_pcm_def split: if_splits)

lemma miss_200_cached:
  assumes miss: "fs s (resolve (artifact E req ''.json'')) = None"
    and ok: "fst (stream_pcm E req s) = Http 200 b"
  obtains vd vs cf s2 dur audio where
    "stream_pcm E req s =
       fetch_and_cache E (query_of req) (get_cache_id (md5 E) (query_of req))
         (emit (DeriveKey (query_of req)) s)"
    "youtube_search E (query_of req) = Inr (vd # vs)"
    "prepare_cookie E (emit (MediaSearch (query_of req)) (emit (DeriveKey (query_of req)) s))
       = Inr (cf, s2)"
    "ydl_extract_info E cf (get_cache_id (md5 E) (query_of req)) (watch_url (video_id vd))
       = Inr (dur, audio)"
proof -
  obtain sg where sg: "song_param req = Some sg" "sg \<noteq> []"
    using answer_200_has_song [OF ok] by blast
  have run: "stream_pcm E req s =
       fetch_and_cache E (query_of req) (get_cache_id (md5 E) (query_of req))
         (emit (DeriveKey (query_of req)) s)"
    using miss by (simp add: stream_pcm_song [OF sg])
  show ?thesis
  proof (cases rule: fetch_and_cache_outcomes
      [of E "query_of req" "get_cache_id (md5 E) (query_of req)"
          "emit (DeriveKey (query_of req)) s"])
    case stopped
    then show ?thesis using ok run by simp
  next
    case (download_failed cf s2)
    then show ?thesis using ok run by simp
  next
    case (cached vd vs cf s2 dur audio)
    then show ?thesis using run that by blast
  qed
qed

section \<open>The lyric stage\<close>

lemma get_lyrics_primary:
  "fst (primary_lyrics E q s) \<noteq> [] \<Longrightarrow> get_lyrics E q v s = primary_lyrics E q s"
  by (cases "primary_lyrics E q s") (simp add: get_lyrics_def)

lemma get_lyrics_fallback:
  "fst (primary_lyrics E q s) = [] \<Longrightarrow>
   get_lyrics E q v s = transcript_lyrics E v (snd (primary_lyrics E q s))"
  by (cases "primary_lyrics E q s") (simp add: get_lyrics_def)

lemma transcript_lyrics_text:
  "fst (transcript_lyrics E v s) =
     (case transcript_fetch E v [''vi'', ''en''] of Inl m \<Rightarrow> [] | Inr tr \<Rightarrow> format_transcript tr)"
  by (simp add: transcript_lyrics_def Let_def split: sum.splits)

lemma primary_lyrics_yields:
  assumes "ytm_search E q = Inr (Some v # hs)" and "ytm_get_song E v = Inr (Some bid)"
    and "ytm_get_lyrics E bid = Inr (Some (Some t))"
  shows "fst (primary_lyrics E q s) = t"
  using assms by (simp add: primary_lyrics_def Let_def)

lemma primary_lyrics_raises:
  assumes "(\<exists>m. ytm_search E q = Inl m) \<or>
           (\<exists>v hs m. ytm_search E q = Inr (Some v # hs) \<and> ytm_get_song E v = Inl m) \<or>
           (\<exists>v hs bid m. ytm_search E q = Inr (Some v # hs) \<and>
                ytm_get_song E v = Inr (Some bid) \<and> ytm_get_lyrics E bid = Inl m)"
  shows "fst (primary_lyrics E q s) = []"
  using assms by (auto simp: primary_lyrics_def Let_def)

lemma prepare_cookie_trace:
  "prepare_cookie E s = Inr (cf, s') \<Longrightarrow>
   \<exists>es. trace s' = trace s @ es \<and> (\<forall>e\<in>set es. \<not> is_transcript_call e)"
  by (drule prepare_cookie_cases) (auto simp: is_transcript_call_def)

lemma lyric_stage_of_run:
  assumes miss: "fs s (resolve (artifact E req ''.json'')) = None"
    and ok: "fst (stream_pcm E req s) = Http 200 b"
    and found: "youtube_search E (query_of req) = Inr (vd # vs)"
  shows "(fst (primary_lyrics E (query_of req) s) \<noteq> [] \<longrightarrow>
            fs (snd (stream_pcm E req s)) (resolve (artifact E req ''.lrc'')) =
              Some (Raw (fst (primary_lyrics E (query_of req) s))) \<and>
            (\<forall>e\<in>set (new_trace s (snd (stream_pcm E req s))). \<not> is_transcript_call e)) \<and>
         (fst (primary_lyrics E (query_of req) s) = [] \<longrightarrow>
            (\<exists>es. new_trace s (snd (stream_pcm E req s)) =
                    es @ [TranscriptFetch (video_id vd) [''vi'', ''en''],
                          FileOpen (artifact E req ''.lrc'') ''w'',
                          FileOpen (artifact E req ''.json'') ''w'']) \<and>
            fs (snd (stream_pcm E req s)) (resolve (artifact E req ''.lrc'')) =
              Some (Raw (case transcript_fetch E (video_id vd) [''vi'', ''en''] of
                           Inl m \<Rightarrow> [] | Inr tr \<Rightarrow> format_transcript tr))) \<and>
         (\<forall>v hs bid t.
            ytm_search E (query_of req) = Inr (Some v # hs) \<and>
            ytm_get_song E v = Inr (Some bid) \<and>
            ytm_get_lyrics E bid = Inr (Some (Some t)) \<longrightarrow>
            fst (primary_lyrics E (query_of req) s) = t)"
proof -
  let ?q = "query_of req"
  let ?k = "get_cache_id (md5 E) ?q"
  obtain vd' vs' cf s2 dur audio where
    run: "stream_pcm E req s = fetch_and_cache E ?q ?k (emit (DeriveKey ?q) s)"
    and c: "youtube_search E ?q = Inr (vd' # vs')"
    "prepare_cookie E (emit (MediaSearch ?q) (emit (DeriveKey ?q) s)) = Inr (cf, s2)"
    "ydl_extract_info E cf ?k (watch_url (video_id vd')) = Inr (dur, audio)"
    using miss_200_cached [OF miss ok] by blast
  have vd: "vd' = vd" using c(1) found by simp
  note eq = fetch_and_cache_success [OF c]
  let ?s4 = "store (cache_file ?k ''.mp3'') (Raw audio)
               (emit (AudioFetch (watch_url (video_id vd))) s2)"
  obtain es where es: "trace s2 = trace s @ [DeriveKey ?q, MediaSearch ?q] @ es"
    and nes: "\<forall>e\<in>set es. \<not> is_transcript_call e"
    using prepare_cookie_trace [OF c(2)] by auto
  obtain ps where ps: "trace (snd (primary_lyrics E ?q ?s4)) = trace ?s4 @ ps"
    and nps: "\<forall>e\<in>set ps. \<not> is_transcript_call e"
    using primary_lyrics_trace [of E ?q ?s4] by auto
  have pt: "fst (primary_lyrics E ?q ?s4) = fst (primary_lyrics E ?q s)"
    by (rule primary_lyrics_text)
  have A: "fs (snd (stream_pcm E req s)) (resolve (artifact E req ''.lrc'')) =
              Some (Raw (fst (primary_lyrics E ?q s))) \<and>
           (\<forall>e\<in>set (new_trace s (snd (stream_pcm E req s))). \<not> is_transcript_call e)"
    if p: "fst (primary_lyrics E ?q s) \<noteq> []"
  proof -
    have g: "get_lyrics E ?q (video_id vd) ?s4 = primary_lyrics E ?q ?s4"
      using p pt by (simp add: get_lyrics_primary)
    show ?thesis
      unfolding run eq vd g
      using es nes ps nps pt artifact_distinct [of E req]
      by (auto simp: new_trace_def artifact_def [symmetric] is_transcript_call_def)
  qed
  have B: "(\<exists>es. new_trace s (snd (stream_pcm E req s)) =
                    es @ [TranscriptFetch (video_id vd) [''vi'', ''en''],
                          FileOpen (artifact E req ''.lrc'') ''w'',
                          FileOpen (artifact E req ''.json'') ''w'']) \<and>
            fs (snd (stream_pcm E req s)) (resolve (artifact E req ''.lrc'')) =
              Some (Raw (case transcript_fetch E (video_id vd) [''vi'', ''en''] of
                           Inl m \<Rightarrow> [] | Inr tr \<Rightarrow> format_transcript tr))"
    if p: "fst (primary_lyrics E ?q s) = []"
  proof -
    have g: "get_lyrics E ?q (video_id vd) ?s4 =
             transcript_lyrics E (video_id vd) (snd (primary_lyrics E ?q ?s4))"
      using p pt by (simp add: get_lyrics_fallback)
    show ?thesis
      unfolding run eq vd g
      using es ps artifact_distinct [of E req]
      by (simp add: new_trace_def artifact_def [symmetric] transcript_lyrics_text)
  qed
  show ?thesis using A B primary_lyrics_yields [of E ?q _ _ _ _ s] by blast
qed

section \<open>The concrete runs\<close>

lemma query_req0: "query_of req0 = ''Shape of You Ed Sheeran''"
  by code_simp

lemma meta_req0:
  "artifact env0 req0 ''.json'' = ''music_cache/00000000000000000000000000000017.json''"
  by code_simp

lemma lrc_req0:
  "artifact env0 req0 ''.lrc'' = ''music_cache/00000000000000000000000000000017.lrc''"
  by code_simp

lemma state0_no_metadata: "fs state0 (resolve (artifact E req0 ''.json'')) = None"
  by (simp add: state0_def)

lemma run0_answer: "fst (stream_pcm env0 req0 state0) = Http 200 (JObj data0)"
  by code_simp

lemma state1_metadata:
  "fs state1 (resolve (artifact env0 req0 ''.json'')) = Some (JsonDoc (JObj data0))"
  by code_simp

lemma key_req0:
  "get_cache_id (md5 env0) (query_of req0) = ''00000000000000000000000000000017''"
  by code_simp

lemma data0_made:
  "make_meta_json ''00000000000000000000000000000017'' ''Ed'' ''Shape'' (JInt 233) ''img'' = data0"
  by (simp add: make_meta_json_def data0_def CACHE_DIR_def)

lemma state1_lyrics:
  "fs state1 (resolve (artifact env0 req0 ''.lrc'')) = Some (Raw (''la'' @ [CHR 0x0A] @ ''la''))"
  by code_simp

lemma serve_cache_artifact:
  "fst (serve_cache dirs0 ''00000000000000000000000000000017.mp3'' state1) =
     Stream ''audio/mpeg'' (Raw ''ID3'')"
  by code_simp

lemma serve_cache_absent:
  "serve_cache dirs0 ''00000000000000000000000000000017.mp3'' state0 =
     (Http 404 (JObj [(''error'', JStr ''file not found'')]), state0)"
  by (simp add: serve_cache_def os_resolve_def os_path_join_def CACHE_DIR_def dirs0_def
                child_def state0_def)

lemma serve_cache_directory:
  "fst (serve_cache dirs0 ''.'' state0) = Unhandled IsADirectoryError"
  by code_simp

lemma serve_cache_missing_directory:
  "fst (serve_cache dirs0 ''nodir/../00000000000000000000000000000017.mp3'' state1) =
     Http 404 (JObj [(''error'', JStr ''file not found'')])"
  by code_simp

section \<open>The claims\<close>

text \<open>
  C7. The cache key is a function of the query string alone (given the hash function), it
  is defined for every string, it has 32 characters, each of them a hexadecimal digit, and
  equal queries have equal keys. The key carries the 128 bits of the digest: two queries
  have the same key exactly when they have the same digest.
\<close>

theorem get_cache_id_fixed_size:
  "length (get_cache_id h q) = 32 \<and> set (get_cache_id h q) \<subseteq> set hex_digits \<and>
   (\<forall>q'. q' = q \<longrightarrow> get_cache_id h q' = get_cache_id h q) \<and>
   (\<forall>q'. get_cache_id h q' = get_cache_id h q \<longleftrightarrow> h q' = h q)"
  using hexdigest_inj [of "h _" "h q"]
  by (auto simp: get_cache_id_def length_hexdigest set_hexdigest [THEN subsetD])

theorem get_cache_id_fixed_size_witness:
  "length (get_cache_id (md5 env0) ''Shape of You Ed Sheeran'') = 32 \<and>
   set (get_cache_id (md5 env0) ''Shape of You Ed Sheeran'') \<subseteq> set hex_digits \<and>
   get_cache_id (md5 env0) ''Shape of You Ed Sheeran'' =
     ''00000000000000000000000000000017''"
proof -
  have e: "get_cache_id (md5 env0) ''Shape of You Ed Sheeran'' =
          ''00000000000000000000000000000017''"
    by code_simp
  have "length (get_cache_id (md5 env0) ''Shape of You Ed Sheeran'') = 32 \<and>
        set (get_cache_id (md5 env0) ''Shape of You Ed Sheeran'') \<subseteq> set hex_digits"
    using get_cache_id_fixed_size [of "md5 env0" "''Shape of You Ed Sheeran''"] by blast
  with e show ?thesis by blast
qed

text \<open>
  C9. The answer has status 400 exactly when the song parameter is absent or empty, and
  then the body is the error, the state is the one before the call: no key was derived,
  no collaborator was called, no file was opened or written.
\<close>

theorem missing_song_400:
  "(status (fst (stream_pcm E req s)) = Some 400
      \<longleftrightarrow> song_param req = None \<or> song_param req = Some []) \<and>
   (song_param req = None \<or> song_param req = Some [] \<longrightarrow>
      stream_pcm E req s = (Http 400 (JObj [(''error'', JStr ''Missing song'')]), s))"
  using status_lookup_cached status_fetch_and_cache
  by (auto simp: stream_pcm_def Let_def status_def split: option.splits)

theorem missing_song_400_witness:
  "stream_pcm env0 \<lparr>song_param = Some [], artist_param = Some ''Ed Sheeran''\<rparr> state0 =
     (Http 400 (JObj [(''error'', JStr ''Missing song'')]), state0) \<and>
   status (fst (stream_pcm env0 \<lparr>song_param = None, artist_param = None\<rparr> state0)) = Some 400"
  using missing_song_400 [of env0 "\<lparr>song_param = Some [], artist_param = Some ''Ed Sheeran''\<rparr>" state0]
        missing_song_400 [of env0 "\<lparr>song_param = None, artist_param = None\<rparr>" state0]
  by (simp add: status_def)

text \<open>
  C1. An existing metadata file is not always answered with a record: the handler tests
  only that the file exists (line 53). On the store whose metadata file for \<open>req0\<close> is
  empty, the run takes the cached path and \<open>json.load\<close> raises.
\<close>

theorem cache_hit_on_empty_file_raises:
  "fs state_empty_metadata (resolve (artifact env0 req0 ''.json'')) = Some (Raw []) \<and>
   fst (stream_pcm env0 req0 state_empty_metadata) = Unhandled JSONDecodeError"
proof
  show "fs state_empty_metadata (resolve (artifact env0 req0 ''.json'')) = Some (Raw [])"
    by (simp add: state_empty_metadata_def)
  show "fst (stream_pcm env0 req0 state_empty_metadata) = Unhandled JSONDecodeError"
    by code_simp
qed

text \<open>
  C1, as the code has it. When the metadata file of the key of the query exists at the
  start, the handler changes no file, and besides deriving the key it only opens that file
  for reading: no collaborator is called. When the file holds a JSON object, the answer
  is 200 with that object, its \<open>from_cache\<close> set to true.
\<close>

theorem cache_hit_answers_from_store:
  assumes "song_param req = Some sg" and "sg \<noteq> []"
    and "fs s (resolve (artifact E req ''.json'')) = Some c"
  shows "fs (snd (stream_pcm E req s)) = fs s \<and>
         seen (snd (stream_pcm E req s)) = seen s \<and>
         trace (snd (stream_pcm E req s)) =
           trace s @ [DeriveKey (query_of req), FileOpen (artifact E req ''.json'') ''r''] \<and>
         (\<forall>d. json_load (json_loads E) c = Inr (JObj d) \<longrightarrow>
              fst (stream_pcm E req s) =
                Http 200 (JObj (AList.update ''from_cache'' (JBool True) d)) \<and>
              map_of (AList.update ''from_cache'' (JBool True) d) =
                (map_of d)(''from_cache'' \<mapsto> JBool True))"
  using assms
  by (auto simp: stream_pcm_song lookup_cached_def Let_def update_conv'
           split: sum.splits jval.splits)

theorem cache_hit_answers_from_store_witness:
  "fst (stream_pcm env0 req0 state1) = Http 200 (JObj data0) \<and>
   fs (snd (stream_pcm env0 req0 state1)) = fs state1 \<and>
   trace (snd (stream_pcm env0 req0 state1)) =
     trace state1 @ [DeriveKey ''Shape of You Ed Sheeran'',
                     FileOpen ''music_cache/00000000000000000000000000000017.json'' ''r'']"
proof -
  have h1: "song_param req0 = Some ''Shape of You''" by (simp add: req0_def)
  have h2: "''Shape of You'' \<noteq> []" by simp
  have u: "AList.update ''from_cache'' (JBool True) data0 = data0"
    by (simp add: data0_def)
  have j: "json_load (json_loads env0) (JsonDoc (JObj data0)) = Inr (JObj data0)"
    by (simp add: json_load_def)
  show ?thesis
    using cache_hit_answers_from_store [OF h1 h2 state1_metadata] j u query_req0 meta_req0
    by simp
qed

text \<open>
  C2. A run that misses the cache and succeeds answers with \<open>from_cache\<close> true: the
  record built by \<open>make_meta_json\<close> has the constant \<open>True\<close> there, and it is both
  written to the file and returned. Evaluated on the empty store.
\<close>

theorem fresh_answer_says_from_cache:
  "fs state0 (resolve (artifact env0 req0 ''.json'')) = None \<and>
   fst (stream_pcm env0 req0 state0) = Http 200 (JObj data0) \<and>
   map_of data0 ''from_cache'' = Some (JBool True)"
  using state0_no_metadata [of env0] run0_answer by (simp add: data0_def)

text \<open>
  C3. When the metadata file of the key is absent at the start and the answer is 404 (no
  video found) or 500 (download failed), the file is absent at the end and at every
  moment of the run, the handler never opened it for writing, and the same request on the
  resulting state goes through the search again.
\<close>

theorem failed_run_persists_no_metadata:
  assumes miss: "fs s (resolve (artifact E req ''.json'')) = None"
    and fail: "fst (stream_pcm E req s) = Http 404 b \<or> fst (stream_pcm E req s) = Http 500 b"
  shows "fs (snd (stream_pcm E req s)) (resolve (artifact E req ''.json'')) = None \<and>
         (\<forall>f\<in>set (new_seen s (snd (stream_pcm E req s))).
             f (resolve (artifact E req ''.json'')) = None) \<and>
         FileOpen (artifact E req ''.json'') ''w''
             \<notin> set (new_trace s (snd (stream_pcm E req s))) \<and>
         stream_pcm E req (snd (stream_pcm E req s)) =
           fetch_and_cache E (query_of req) (get_cache_id (md5 E) (query_of req))
             (emit (DeriveKey (query_of req)) (snd (stream_pcm E req s)))"
proof -
  let ?m = "resolve (artifact E req ''.json'')"
  let ?q = "query_of req"
  let ?s1 = "emit (DeriveKey ?q) s"
  obtain sg where sg: "song_param req = Some sg" "sg \<noteq> []"
    using failing_answer_has_song [OF fail] by blast
  have run: "stream_pcm E req s = fetch_and_cache E ?q (get_cache_id (md5 E) ?q) ?s1"
    using miss by (simp add: stream_pcm_song [OF sg])
  let ?s' = "snd (stream_pcm E req s)"
  have ne: "artifact E req ''.json'' \<noteq> WRITABLE_COOKIE_FILE"
    using artifact_not_cookie(2) [of "''.json''" E req] by auto
  have core: "fs ?s' ?m = None \<and> (\<forall>f\<in>set (new_seen s ?s'). f ?m = None) \<and>
              FileOpen (artifact E req ''.json'') ''w'' \<notin> set (new_trace s ?s')"
    using fetch_and_cache_failed [of E ?q "get_cache_id (md5 E) ?q" ?s1 b, folded run, OF fail]
  proof (elim disjE exE conjE)
    assume "?s' = emit (MediaSearch ?q) ?s1"
    then show ?thesis using miss by (simp add: new_seen_def new_trace_def)
  next
    fix cf s2 u
    assume pc: "prepare_cookie E (emit (MediaSearch ?q) ?s1) = Inr (cf, s2)"
      and s': "?s' = emit (AudioFetch u) s2"
    have n1: "?m \<noteq> resolve COOKIE_FILE" by (rule artifact_not_cookie(1)) simp
    have n2: "?m \<noteq> resolve WRITABLE_COOKIE_FILE" by (rule artifact_not_cookie(2)) simp
    note fr = prepare_cookie_frame [OF pc n1 n2]
    have a: "fs s2 ?m = None" using fr(1) miss by simp
    have b: "\<forall>f\<in>set (new_seen s s2). f ?m = None"
      using fr(2) miss by (simp add: new_seen_def)
    have c: "FileOpen (artifact E req ''.json'') ''w'' \<notin> set (new_trace s s2)"
    proof
      assume "FileOpen (artifact E req ''.json'') ''w'' \<in> set (new_trace s s2)"
      then have "FileOpen (artifact E req ''.json'') ''w''
                   \<in> set (new_trace (emit (MediaSearch ?q) ?s1) s2)"
        using prepare_cookie_cases [OF pc] by (auto simp: new_trace_def)
      then show False using fr(3) ne by blast
    qed
    have d: "new_trace s ?s' = new_trace s s2 @ [AudioFetch u]"
      using prepare_cookie_cases [OF pc] s' by (auto simp: new_trace_def)
    show ?thesis using a b c d s' by (simp add: new_seen_def)
  qed
  then have "fs ?s' ?m = None" by blast
  then have "stream_pcm E req ?s' =
             fetch_and_cache E ?q (get_cache_id (md5 E) ?q) (emit (DeriveKey ?q) ?s')"
    by (simp add: stream_pcm_song [OF sg])
  with core show ?thesis by blast
qed

theorem failed_run_persists_no_metadata_witness:
  "fst (stream_pcm env_download_fails req0 state0) =
     Http 500 (JObj [(''error'', JStr ''Download failed: HTTP Error 403'')]) \<and>
   fs (snd (stream_pcm env_download_fails req0 state0))
      (resolve (artifact env_download_fails req0 ''.json'')) = None \<and>
   fst (stream_pcm env_no_video req0 state0) =
     Http 404 (JObj [(''error'', JStr ''No video found'')]) \<and>
   fs (snd (stream_pcm env_no_video req0 state0))
      (resolve (artifact env_no_video req0 ''.json'')) = None"
proof -
  have f1: "fst (stream_pcm env_download_fails req0 state0) =
              Http 500 (JObj [(''error'', JStr ''Download failed: HTTP Error 403'')])"
    by code_simp
  have f2: "fst (stream_pcm env_no_video req0 state0) =
              Http 404 (JObj [(''error'', JStr ''No video found'')])"
    by code_simp
  show ?thesis
    using failed_run_persists_no_metadata [OF state0_no_metadata disjI2, OF f1]
          failed_run_persists_no_metadata [OF state0_no_metadata disjI1, OF f2] f1 f2
    by blast
qed

text \<open>
  C10. When every key with a metadata file has a lyrics file, the same holds after
  \<open>stream_pcm\<close> and in every store that exists during the run: the lyrics file is
  written before the metadata file. No store of the run loses a file, and \<open>serve_cache\<close>
  changes nothing.
\<close>

theorem metadata_implies_lyrics:
  assumes inv: "complete_entries (fs s)"
  shows "complete_entries (fs (snd (stream_pcm E req s))) \<and>
         (\<forall>f\<in>set (new_seen s (snd (stream_pcm E req s))).
             complete_entries f \<and> dom (fs s) \<subseteq> dom f) \<and>
         dom (fs s) \<subseteq> dom (fs (snd (stream_pcm E req s))) \<and>
         fs (snd (serve_cache D fn s)) = fs s \<and> seen (snd (serve_cache D fn s)) = seen s"
proof -
  let ?q = "query_of req"
  let ?s1 = "emit (DeriveKey ?q) s"
  let ?k = "get_cache_id (md5 E) ?q"
  let ?P = "\<lambda>s'. complete_entries (fs s') \<and>
         (\<forall>f\<in>set (new_seen s s'). complete_entries f \<and> dom (fs s) \<subseteq> dom f) \<and>
         dom (fs s) \<subseteq> dom (fs s')"
  have serve: "fs (snd (serve_cache D fn s)) = fs s \<and> seen (snd (serve_cache D fn s)) = seen s"
    by (simp add: serve_cache_def Let_def split: option.splits)
  have P0: "?P s" using inv by (simp add: new_seen_def)
  have P1: "?P (emit e (emit e' s))" for e e' using inv by (simp add: new_seen_def)
  have Pf: "?P (snd (fetch_and_cache E ?q ?k ?s1))"
  proof (cases rule: fetch_and_cache_outcomes [of E ?q ?k ?s1])
    case stopped
    then show ?thesis using P1 by simp
  next
    case (download_failed cf s2)
    note pc = prepare_cookie_complete [OF download_failed(1)]
    have "complete_entries (fs (emit (MediaSearch ?q) ?s1))" using inv by simp
    note pc' = pc [OF this]
    show ?thesis using pc' download_failed(2) by (simp add: new_seen_def)
  next
    case (cached vd vs cf s2 dur audio)
    note pc = prepare_cookie_complete [OF cached(2)]
    have "complete_entries (fs (emit (MediaSearch ?q) ?s1))" using inv by simp
    note pc' = pc [OF this]
    obtain xs where xs: "seen s2 = seen s @ xs" using pc'(4) by auto
    have ns: "new_seen s s2 = xs" using xs by (simp add: new_seen_def)
    have d2: "dom (fs s) \<subseteq> dom (fs s2)" using pc'(3) by simp
    have a2: "\<forall>f\<in>set xs. complete_entries f \<and> dom (fs s) \<subseteq> dom f"
      using pc'(2) xs by (simp add: new_seen_def)
    note cs = cached_stores_complete [OF pc'(1), of "md5 E ?q"]
    show ?thesis
      unfolding fetch_and_cache_success [OF cached]
      using cs a2 d2 xs
      by (simp add: new_seen_def get_cache_id_def subset_insertI2)
  qed
  have "?P (snd (stream_pcm E req s))"
    using stream_pcm_state [of E req s] P0 P1 Pf by (elim disjE) simp_all
  with serve show ?thesis by simp
qed

theorem metadata_implies_lyrics_witness:
  "fs state1 (resolve (artifact env0 req0 ''.json'')) = Some (JsonDoc (JObj data0)) \<and>
   fs state1 (resolve (artifact env0 req0 ''.lrc'')) \<noteq> None"
proof -
  have inv0: "complete_entries (fs state0)"
    by (simp add: complete_entries_def state0_def)
  have "complete_entries (fs state1)"
    using metadata_implies_lyrics [OF inv0, of env0 req0] by (simp add: state1_def)
  then have "fs state1 (resolve (artifact env0 req0 ''.json'')) \<noteq> None \<longrightarrow>
             fs state1 (resolve (artifact env0 req0 ''.lrc'')) \<noteq> None"
    by (simp add: complete_entries_def artifact_def get_cache_id_def)
  then show ?thesis using state1_metadata by simp
qed

text \<open>
  C4. The metadata file is written in place, not through a temporary file and a rename:
  \<open>open(meta_path, "w")\<close> creates it empty and the record is in it only when the block
  is left. In the run of \<open>req0\<close> on the empty store, the fifth store of the run has an
  empty metadata file, and a request that arrives at that moment takes the cached path and
  fails to decode it.
\<close>

theorem metadata_write_not_atomic:
  "(seen state1 ! 4) (resolve (artifact env0 req0 ''.json'')) = Some (Raw []) \<and>
   fst (stream_pcm env0 req0 \<lparr>fs = seen state1 ! 4, seen = [], trace = []\<rparr>) =
     Unhandled JSONDecodeError"
proof
  show "(seen state1 ! 4) (resolve (artifact env0 req0 ''.json'')) = Some (Raw [])"
    by code_simp
  show "fst (stream_pcm env0 req0 \<lparr>fs = seen state1 ! 4, seen = [], trace = []\<rparr>) =
          Unhandled JSONDecodeError"
    by code_simp
qed

text \<open>
  C4, as the code has it. In a run that misses the cache and answers 200, the last two
  stores of the run are the one with the empty metadata file and the one with the record
  that is returned; in every store before them (from the start of the run, through the
  download and the writing of the lyrics) the key has no metadata file. So an interruption
  after the download and before the metadata file is opened leaves no metadata file.
\<close>

theorem metadata_written_in_place:
  assumes miss: "fs s (resolve (artifact E req ''.json'')) = None"
    and ok: "fst (stream_pcm E req s) = Http 200 b"
  shows "2 \<le> length (new_seen s (snd (stream_pcm E req s))) \<and>
         (\<forall>f\<in>set (butlast (butlast (new_seen s (snd (stream_pcm E req s))))).
             f (resolve (artifact E req ''.json'')) = None) \<and>
         last (butlast (new_seen s (snd (stream_pcm E req s))))
             (resolve (artifact E req ''.json'')) = Some (Raw []) \<and>
         last (new_seen s (snd (stream_pcm E req s)))
             (resolve (artifact E req ''.json'')) = Some (JsonDoc b) \<and>
         fs (snd (stream_pcm E req s)) = last (new_seen s (snd (stream_pcm E req s)))"
proof -
  let ?m = "resolve (artifact E req ''.json'')"
  obtain vd vs cf s2 dur audio where
    run: "stream_pcm E req s =
       fetch_and_cache E (query_of req) (get_cache_id (md5 E) (query_of req))
         (emit (DeriveKey (query_of req)) s)"
    and c: "youtube_search E (query_of req) = Inr (vd # vs)"
    "prepare_cookie E (emit (MediaSearch (query_of req)) (emit (DeriveKey (query_of req)) s))
       = Inr (cf, s2)"
    "ydl_extract_info E cf (get_cache_id (md5 E) (query_of req)) (watch_url (video_id vd))
       = Inr (dur, audio)"
    using miss_200_cached [OF miss ok] by blast
  note eq = fetch_and_cache_success [OF c]
  have n1: "?m \<noteq> resolve COOKIE_FILE" by (rule artifact_not_cookie(1)) simp
  have n2: "?m \<noteq> resolve WRITABLE_COOKIE_FILE" by (rule artifact_not_cookie(2)) simp
  note fr = prepare_cookie_frame(1,2) [OF c(2) n1 n2]
  obtain xs where xs: "seen s2 = seen s @ xs"
    using prepare_cookie_extends [OF c(2)] by auto
  have m2: "fs s2 ?m = None" using fr(1) miss by simp
  have mx: "\<forall>f\<in>set xs. f ?m = None" using fr(2) xs miss by (simp add: new_seen_def)
  have b: "b = JObj (make_meta_json (get_cache_id (md5 E) (query_of req)) (channel_title vd)
                  (title vd) (case dur of None \<Rightarrow> JInt 0 | Some d \<Rightarrow> d) (thumbnail_high vd))"
    using ok unfolding run eq by simp
  show ?thesis
    unfolding run eq b
    using m2 mx xs artifact_distinct [of E req]
    by (simp add: new_seen_def artifact_def [symmetric] butlast_append)
qed

theorem metadata_written_in_place_witness:
  "2 \<le> length (new_seen state0 state1) \<and>
   last (butlast (new_seen state0 state1)) (resolve (artifact env0 req0 ''.json'')) =
     Some (Raw []) \<and>
   last (new_seen state0 state1) (resolve (artifact env0 req0 ''.json'')) =
     Some (JsonDoc (JObj data0))"
  using metadata_written_in_place [OF state0_no_metadata run0_answer]
  by (simp add: state1_def)

text \<open>
  C5. In a run that misses the cache and reaches the lyric stage (it answers 200): when
  the text from YouTube Music is not empty, the lyrics file holds that text and no
  transcript is requested during the run; when it is empty, the transcript is requested
  with the languages \<open>vi\<close>, \<open>en\<close> in this order, right before the lyrics file is
  written, and the lyrics file holds the formatted transcript, or the empty text when the
  request raised. The text from YouTube Music is what \<open>get_lyrics\<close> returns under
  \<open>"lyrics"\<close> for the first hit of the search.
\<close>

theorem lyric_sources_in_order:
  assumes miss: "fs s (resolve (artifact E req ''.json'')) = None"
    and ok: "fst (stream_pcm E req s) = Http 200 b"
    and found: "youtube_search E (query_of req) = Inr (vd # vs)"
  shows "(fst (primary_lyrics E (query_of req) s) \<noteq> [] \<longrightarrow>
            fs (snd (stream_pcm E req s)) (resolve (artifact E req ''.lrc'')) =
              Some (Raw (fst (primary_lyrics E (query_of req) s))) \<and>
            (\<forall>e\<in>set (new_trace s (snd (stream_pcm E req s))). \<not> is_transcript_call e)) \<and>
         (fst (primary_lyrics E (query_of req) s) = [] \<longrightarrow>
            (\<exists>es. new_trace s (snd (stream_pcm E req s)) =
                    es @ [TranscriptFetch (video_id vd) [''vi'', ''en''],
                          FileOpen (artifact E req ''.lrc'') ''w'',
                          FileOpen (artifact E req ''.json'') ''w'']) \<and>
            fs (snd (stream_pcm E req s)) (resolve (artifact E req ''.lrc'')) =
              Some (Raw (case transcript_fetch E (video_id vd) [''vi'', ''en''] of
                           Inl m \<Rightarrow> [] | Inr tr \<Rightarrow> format_transcript tr))) \<and>
         (\<forall>v hs bid t.
            ytm_search E (query_of req) = Inr (Some v # hs) \<and>
            ytm_get_song E v = Inr (Some bid) \<and>
            ytm_get_lyrics E bid = Inr (Some (Some t)) \<longrightarrow>
            fst (primary_lyrics E (query_of req) s) = t)"
  using assms by (rule lyric_stage_of_run)

theorem lyric_sources_in_order_witness:
  "fst (primary_lyrics env_lyrics (query_of req0) state0) = ''words'' \<and>
   fs (snd (stream_pcm env_lyrics req0 state0)) (resolve (artifact env_lyrics req0 ''.lrc'')) =
     Some (Raw ''words'') \<and>
   filter is_transcript_call (new_trace state0 (snd (stream_pcm env_lyrics req0 state0))) = []"
proof -
  have ok: "fst (stream_pcm env_lyrics req0 state0) = Http 200 (JObj data0)"
    by code_simp
  have found: "youtube_search env_lyrics (query_of req0) =
                 Inr [\<lparr>video_id = ''v1'', title = ''Shape'', channel_title = ''Ed'',
                       thumbnail_high = ''img''\<rparr>]"
    by (simp add: env_lyrics_def env0_def)
  have p: "fst (primary_lyrics env_lyrics (query_of req0) state0) = ''words''"
    by (simp add: primary_lyrics_def env_lyrics_def env0_def)
  show ?thesis
    using lyric_sources_in_order [OF state0_no_metadata ok found] p
    by (simp add: filter_empty_conv)
qed

text \<open>
  C6. An exception in the lyric stage does not always leave empty lyrics: when the search
  on YouTube Music raises, the transcript is still requested, and its text is written. In
  the run of \<open>req0\<close> with \<open>env0\<close> the search raises, the answer is 200, and the lyrics
  file holds the two lines of the transcript.
\<close>

theorem lyric_error_then_transcript_text:
  "ytm_search env0 (query_of req0) = Inl ''timeout'' \<and>
   fst (stream_pcm env0 req0 state0) = Http 200 (JObj data0) \<and>
   fs state1 (resolve (artifact env0 req0 ''.lrc'')) = Some (Raw (''la'' @ [CHR 0x0A] @ ''la'')) \<and>
   fs state1 (resolve (artifact env0 req0 ''.lrc'')) \<noteq> Some (Raw [])"
  using run0_answer state1_lyrics by (simp add: env0_def)

text \<open>
  C6, as the code has it. A run that misses the cache, finds a video, has a cookie file
  to use and downloads the audio answers 200 with the record, whatever the lyric sources
  do. An exception in any of the three calls to YouTube Music leaves the primary text
  empty, and then the lyrics file holds the formatted transcript, or the empty text when
  the transcript request raised; whenever the primary text is empty and the transcript
  request raises, the lyrics file is empty.
\<close>

theorem lyric_errors_absorbed:
  assumes song: "song_param req = Some sg" "sg \<noteq> []"
    and miss: "fs s (resolve (artifact E req ''.json'')) = None"
    and found: "youtube_search E (query_of req) = Inr (vd # vs)"
    and cookie: "cookie_appendable E \<or> fs s (resolve COOKIE_FILE) \<noteq> None"
    and dl: "ydl_extract_info E
               (if cookie_appendable E then COOKIE_FILE else WRITABLE_COOKIE_FILE)
               (get_cache_id (md5 E) (query_of req)) (watch_url (video_id vd)) = Inr (dur, audio)"
  shows "fst (stream_pcm E req s) =
           Http 200 (JObj (make_meta_json (get_cache_id (md5 E) (query_of req))
                       (channel_title vd) (title vd)
                       (case dur of None \<Rightarrow> JInt 0 | Some d \<Rightarrow> d) (thumbnail_high vd))) \<and>
         (fst (primary_lyrics E (query_of req) s) = [] \<and>
          (\<exists>m. transcript_fetch E (video_id vd) [''vi'', ''en''] = Inl m) \<longrightarrow>
            fs (snd (stream_pcm E req s)) (resolve (artifact E req ''.lrc'')) = Some (Raw [])) \<and>
         ((\<exists>m. ytm_search E (query_of req) = Inl m) \<or>
          (\<exists>v hs m. ytm_search E (query_of req) = Inr (Some v # hs) \<and>
                     ytm_get_song E v = Inl m) \<or>
          (\<exists>v hs bid m. ytm_search E (query_of req) = Inr (Some v # hs) \<and>
                     ytm_get_song E v = Inr (Some bid) \<and> ytm_get_lyrics E bid = Inl m) \<longrightarrow>
            fst (primary_lyrics E (query_of req) s) = [] \<and>
            fs (snd (stream_pcm E req s)) (resolve (artifact E req ''.lrc'')) =
              Some (Raw (case transcript_fetch E (video_id vd) [''vi'', ''en''] of
                           Inl m \<Rightarrow> [] | Inr tr \<Rightarrow> format_transcript tr)))"
proof -
  let ?q = "query_of req"
  let ?k = "get_cache_id (md5 E) ?q"
  let ?cf = "if cookie_appendable E then COOKIE_FILE else WRITABLE_COOKIE_FILE"
  have run: "stream_pcm E req s = fetch_and_cache E ?q ?k (emit (DeriveKey ?q) s)"
    using miss by (simp add: stream_pcm_song [OF song])
  obtain s2 where pc:
    "prepare_cookie E (emit (MediaSearch ?q) (emit (DeriveKey ?q) s)) = Inr (?cf, s2)"
    using prepare_cookie_ok [of E "emit (MediaSearch ?q) (emit (DeriveKey ?q) s)"] cookie
    by auto
  note eq = fetch_and_cache_success [OF found pc dl]
  have ok: "fst (stream_pcm E req s) =
           Http 200 (JObj (make_meta_json ?k (channel_title vd) (title vd)
                       (case dur of None \<Rightarrow> JInt 0 | Some d \<Rightarrow> d) (thumbnail_high vd)))"
    unfolding run eq by simp
  note order = lyric_stage_of_run [OF miss ok found]
  have B: "fs (snd (stream_pcm E req s)) (resolve (artifact E req ''.lrc'')) =
              Some (Raw (case transcript_fetch E (video_id vd) [''vi'', ''en''] of
                           Inl m \<Rightarrow> [] | Inr tr \<Rightarrow> format_transcript tr))"
    if "fst (primary_lyrics E ?q s) = []"
    using order that by blast
  have C: "fst (primary_lyrics E ?q s) = []"
    if "(\<exists>m. ytm_search E ?q = Inl m) \<or>
          (\<exists>v hs m. ytm_search E ?q = Inr (Some v # hs) \<and> ytm_get_song E v = Inl m) \<or>
          (\<exists>v hs bid m. ytm_search E ?q = Inr (Some v # hs) \<and>
                     ytm_get_song E v = Inr (Some bid) \<and> ytm_get_lyrics E bid = Inl m)"
    using that by (rule primary_lyrics_raises)
  have D: "fs (snd (stream_pcm E req s)) (resolve (artifact E req ''.lrc'')) = Some (Raw [])"
    if "fst (primary_lyrics E ?q s) = []" "\<exists>m. transcript_fetch E (video_id vd) [''vi'', ''en''] = Inl m"
    using B [OF that(1)] that(2) by auto
  show ?thesis using ok B C D by blast
qed

theorem lyric_errors_absorbed_witness:
  "fst (stream_pcm env_no_lyrics req0 state0) = Http 200 (JObj data0) \<and>
   fs (snd (stream_pcm env_no_lyrics req0 state0))
      (resolve (artifact env_no_lyrics req0 ''.lrc'')) = Some (Raw [])"
proof -
  have song: "song_param req0 = Some ''Shape of You''" "''Shape of You'' \<noteq> []"
    by (simp_all add: req0_def)
  have found: "youtube_search env_no_lyrics (query_of req0) =
                 Inr [\<lparr>video_id = ''v1'', title = ''Shape'', channel_title = ''Ed'',
                       thumbnail_high = ''img''\<rparr>]"
    by (simp add: env_no_lyrics_def env0_def)
  have cookie: "cookie_appendable env_no_lyrics \<or> fs state0 (resolve COOKIE_FILE) \<noteq> None"
    by (simp add: env_no_lyrics_def env0_def)
  have dl: "ydl_extract_info env_no_lyrics
              (if cookie_appendable env_no_lyrics then COOKIE_FILE else WRITABLE_COOKIE_FILE)
              (get_cache_id (md5 env_no_lyrics) (query_of req0)) (watch_url (video_id
                 \<lparr>video_id = ''v1'', title = ''Shape'', channel_title = ''Ed'',
                  thumbnail_high = ''img''\<rparr>)) = Inr (Some (JInt 233), ''ID3'')"
    by (simp add: env_no_lyrics_def env0_def)
  have k: "get_cache_id (md5 env_no_lyrics) (query_of req0) =
             ''00000000000000000000000000000017''"
    using key_req0 by (simp add: env_no_lyrics_def)
  have raises: "ytm_search env_no_lyrics (query_of req0) = Inl ''timeout''"
    by (simp add: env_no_lyrics_def env0_def)
  have tr: "transcript_fetch env_no_lyrics ''v1'' [''vi'', ''en''] = Inl ''TranscriptsDisabled''"
    by (simp add: env_no_lyrics_def env0_def)
  show ?thesis
    using lyric_errors_absorbed [OF song state0_no_metadata found cookie dl] raises tr
    by (simp add: k data0_made)
qed

text \<open>
  C8. The joined path can resolve outside the cache root, and then \<open>serve_cache\<close> reads
  a file that is not in the cache. With the working directory and the cache root as the
  only directories and the copy of the cookie file in the working directory, the file name
  \<open>../cookiesyt_writable.txt\<close> is looked up at that copy, which is not inside the cache
  root, and its bytes are streamed.
\<close>

theorem serve_cache_leaves_cache_root:
  "os_resolve dirs0 (fs state_cookie_copy)
     (os_path_join CACHE_DIR ''../cookiesyt_writable.txt'') =
     Some (Loc False 0 [''cookiesyt_writable.txt'']) \<and>
   \<not> inside_cache_root (Loc False 0 [''cookiesyt_writable.txt'']) \<and>
   fst (serve_cache dirs0 ''../cookiesyt_writable.txt'' state_cookie_copy) =
     Stream ''text/plain; charset=utf-8'' (Raw ''SID=1'')"
proof (intro conjI)
  show "os_resolve dirs0 (fs state_cookie_copy)
          (os_path_join CACHE_DIR ''../cookiesyt_writable.txt'') =
          Some (Loc False 0 [''cookiesyt_writable.txt''])"
    by code_simp
  show "\<not> inside_cache_root (Loc False 0 [''cookiesyt_writable.txt''])"
    by code_simp
  show "fst (serve_cache dirs0 ''../cookiesyt_writable.txt'' state_cookie_copy) =
          Stream ''text/plain; charset=utf-8'' (Raw ''SID=1'')"
    by code_simp
qed

end
